theory Spec2Isabelle
  imports Main "HOL-Library.Multiset"
begin

section \<open>Data model (types.ts)\<close>

text \<open>
  The records follow the interfaces of \<^verbatim>\<open>types.ts\<close>. Field names that several
  interfaces share (\<^verbatim>\<open>id\<close>, \<^verbatim>\<open>name\<close>, \<^verbatim>\<open>type\<close>, \<^verbatim>\<open>text\<close>) carry a suffix, since
  record fields are constants of the theory. JavaScript numbers that hold second
  counts and scores are \<open>int\<close>; list positions, round numbers and hint counts are \<open>nat\<close>.
\<close>

datatype GameStatus = LOBBY | PLAYING | ROUND_OVER | GAME_OVER

datatype Difficulty = easy | medium | hard

record Player =
  id_p :: string
  name_p :: string
  score :: int
  isSelf :: bool
  avatarColor :: string

record WordData =
  word :: string
  hints :: "string list"
  difficulty :: Difficulty

datatype MessageType = chat | system | guess_correct | guess_wrong

record ChatMessage =
  id_m :: string
  playerId :: string
  playerName :: string
  text_m :: string
  type_m :: MessageType
  timestamp :: nat

section \<open>Wire protocol of the game actions\<close>

text \<open>
  The \<^verbatim>\<open>data\<close> object of a \<^verbatim>\<open>SYNC_STATE\<close> action: every field may be absent
  (\<^verbatim>\<open>undefined\<close> in the source), which is \<open>None\<close> here.
\<close>

record SyncState =
  status_d :: "GameStatus option"
  currentWord_d :: "WordData option"
  timeLeft_d :: "int option"
  round_d :: "nat option"
  revealedIndices_d :: "nat list option"
  revealedHintCount_d :: "nat option"
  maxRounds_d :: "nat option"

definition no_fields :: SyncState where
  "no_fields = \<lparr>status_d = None, currentWord_d = None, timeLeft_d = None, round_d = None,
     revealedIndices_d = None, revealedHintCount_d = None, maxRounds_d = None\<rparr>"

text \<open>
  \<^verbatim>\<open>{ type, data }\<close> as passed to \<^verbatim>\<open>socketService.broadcastAction\<close>. The arguments of
  \<open>PLAYER_SCORED\<close> are \<^verbatim>\<open>playerId\<close>, \<^verbatim>\<open>score\<close>, \<^verbatim>\<open>points\<close>, \<^verbatim>\<open>playerName\<close>, in the order
  the source writes them.
\<close>

datatype Action =
    SYNC_STATE SyncState
  | SYNC_TIME int
  | SYNC_HINT_UPDATE "nat list" nat
  | PLAYER_SCORED string int int string
  | CHAT ChatMessage

section \<open>The state of the App component (App.tsx)\<close>

text \<open>
  A callback handed to \<^verbatim>\<open>setTimeout\<close>: round advancement, with the round number and the
  word list its closure holds, or the empty body.
\<close>

datatype Callback = NextRoundHost nat "WordData list" | EmptyBody

text \<open>
  The \<^verbatim>\<open>useState\<close> cells of the component that the game logic reads or writes
  (\<^verbatim>\<open>roomId\<close> and \<^verbatim>\<open>isConnecting\<close> serve the join screen only), followed by its two
  effects on the world:
  \<open>sent\<close> lists the calls of \<^verbatim>\<open>socketService.broadcastAction\<close> in order, \<open>timeouts\<close> the
  calls of \<^verbatim>\<open>setTimeout\<close> with their delay in milliseconds.
\<close>

record App =
  player :: "Player option"
  otherPlayers :: "Player list"
  isHost :: bool
  gameStatus :: GameStatus
  currentWord :: "WordData option"
  wordList :: "WordData list"
  round :: nat
  timeLeft :: int
  revealedIndices :: "nat list"
  revealedHintCount :: nat
  roundWinners :: "Player list"
  chatMessages :: "ChatMessage list"
  inputValue :: string
  sent :: "Action list"
  timeouts :: "(nat \<times> Callback) list"

definition ROUND_TIME :: int where
  "ROUND_TIME = 60"

definition HINT_INTERVAL :: int where
  "HINT_INTERVAL = 15"

text \<open>The initial values of the \<^verbatim>\<open>useState\<close> cells; nothing sent, nothing scheduled.\<close>

definition initialApp :: App where
  "initialApp = \<lparr>player = None, otherPlayers = [], isHost = False, gameStatus = LOBBY,
     currentWord = None, wordList = [], round = 0, timeLeft = ROUND_TIME,
     revealedIndices = [], revealedHintCount = 1, roundWinners = [], chatMessages = [],
     inputValue = [], sent = [], timeouts = []\<rparr>"

text \<open>\<^verbatim>\<open>calculateScore\<close>: \<^verbatim>\<open>(timeLeft * 15) + 100\<close>, read from the component's state.\<close>

definition calculateScore :: "App \<Rightarrow> int" where
  "calculateScore s = (timeLeft s * 15) + 100"

section \<open>Strings, numbers and the environment\<close>

text \<open>
  \<^verbatim>\<open>String.prototype.trim\<close> and \<^verbatim>\<open>toUpperCase\<close> on the ASCII range: white space is the
  space and the control characters TAB, LF, VT, FF, CR; letters \<open>a\<close> to \<open>z\<close> map to
  \<open>A\<close> to \<open>Z\<close> and every other character stays.
\<close>

definition isWhiteSpace :: "char \<Rightarrow> bool" where
  "isWhiteSpace c = (c = CHR '' '' \<or> c = CHR 0x09 \<or> c = CHR 0x0A \<or> c = CHR 0x0B
     \<or> c = CHR 0x0C \<or> c = CHR 0x0D)"

definition trim :: "string \<Rightarrow> string" where
  "trim str = rev (dropWhile isWhiteSpace (rev (dropWhile isWhiteSpace str)))"

definition upperChar :: "char \<Rightarrow> char" where
  "upperChar c = (let n = (of_char c :: nat) in
     if 97 \<le> n \<and> n \<le> 122 then char_of (n - 32) else c)"

definition toUpperCase :: "string \<Rightarrow> string" where
  "toUpperCase str = map upperChar str"

text \<open>Decimal rendering of a number, as a template literal or \<^verbatim>\<open>toString()\<close> gives it.\<close>

fun toString :: "nat \<Rightarrow> string" where
  "toString n = (if n < 10 then [char_of (48 + n)]
     else toString (n div 10) @ [char_of (48 + n mod 10)])"

declare toString.simps [simp del]

definition toStringInt :: "int \<Rightarrow> string" where
  "toStringInt i = (if i < 0 then CHR ''-'' # toString (nat (- i)) else toString (nat i))"

text \<open>
  What a handler reads from outside the component while it runs: \<open>now\<close> is
  \<^verbatim>\<open>Date.now()\<close> (one value for the calls of one handler run), \<open>randomText\<close> the rendering
  of the \<^verbatim>\<open>Math.random()\<close> draw that \<^verbatim>\<open>addSystemMessage\<close> appends to an id, and
  \<open>randomDraw\<close> the draw of the hint reveal step: \<^verbatim>\<open>Math.random()\<close> lies in \<open>[0, 1)\<close>,
  so \<^verbatim>\<open>Math.floor(Math.random() * n)\<close> is any of \<open>0, ..., n - 1\<close>, which the model
  reads as \<open>randomDraw mod n\<close>.
\<close>

record Env =
  now :: nat
  randomText :: string
  randomDraw :: nat

section \<open>Host logic (App.tsx)\<close>

definition addSystemMessage :: "Env \<Rightarrow> string \<Rightarrow> App \<Rightarrow> App" where
  "addSystemMessage env txt s =
     s\<lparr>chatMessages := chatMessages s @
        [\<lparr>id_m = toString (now env) @ randomText env, playerId = ''system'',
          playerName = ''System'', text_m = txt, type_m = system, timestamp = now env\<rparr>]\<rparr>"

definition broadcastAction :: "Action \<Rightarrow> App \<Rightarrow> App" where
  "broadcastAction a s = s\<lparr>sent := sent s @ [a]\<rparr>"

definition setTimeout :: "Callback \<Rightarrow> nat \<Rightarrow> App \<Rightarrow> App" where
  "setTimeout cb ms s = s\<lparr>timeouts := timeouts s @ [(ms, cb)]\<rparr>"

text \<open>
  \<^verbatim>\<open>startRoundHost\<close>. Its \<^verbatim>\<open>word\<close> argument is an element read from a word list, which
  is \<^verbatim>\<open>undefined\<close> (here \<open>None\<close>) when the list has no such element.
\<close>

definition startRoundHost ::
  "Env \<Rightarrow> WordData option \<Rightarrow> nat \<Rightarrow> WordData list \<Rightarrow> App \<Rightarrow> App" where
  "startRoundHost env w roundNum list s =
     broadcastAction
       (SYNC_STATE \<lparr>status_d = Some PLAYING, currentWord_d = w,
          timeLeft_d = Some ROUND_TIME, round_d = Some roundNum,
          revealedIndices_d = Some [], revealedHintCount_d = Some 1,
          maxRounds_d = Some (length list)\<rparr>)
       (addSystemMessage env (''Round '' @ toString roundNum @ '' started!'')
          (s\<lparr>currentWord := w, timeLeft := ROUND_TIME, revealedIndices := [],
             revealedHintCount := 1, gameStatus := PLAYING, roundWinners := []\<rparr>))"

text \<open>
  \<^verbatim>\<open>nextRoundHost\<close> is a \<^verbatim>\<open>useCallback\<close> over \<^verbatim>\<open>[round, wordList]\<close>: the round number and
  the word list it works on are the ones of the render that created it, so they are
  its arguments \<open>r\<close> and \<open>wl\<close> here, and a scheduled callback carries them.
\<close>

definition nextRoundHost :: "Env \<Rightarrow> nat \<Rightarrow> WordData list \<Rightarrow> App \<Rightarrow> App" where
  "nextRoundHost env r wl s =
     (if wl = [] then s
      else if r \<ge> length wl then
        addSystemMessage env ''Game Over! Thanks for playing.''
          (broadcastAction (SYNC_STATE (no_fields\<lparr>status_d := Some GAME_OVER\<rparr>))
             (s\<lparr>gameStatus := GAME_OVER\<rparr>))
      else
        (let nextRoundNum = r + 1
         in startRoundHost env (Some (wl ! (nextRoundNum - 1))) nextRoundNum wl
              (s\<lparr>round := nextRoundNum\<rparr>)))"

text \<open>
  \<^verbatim>\<open>handleGameTickHost\<close>, the hint reveal step: one random letter among the positions
  that are neither revealed nor a space, and the next hint.
\<close>

definition available :: "WordData \<Rightarrow> nat list \<Rightarrow> nat list" where
  "available w revealed =
     filter (\<lambda>i. i \<notin> set revealed \<and> word w ! i \<noteq> CHR '' '') [0 ..< length (word w)]"

definition handleGameTickHost :: "Env \<Rightarrow> int \<Rightarrow> App \<Rightarrow> App" where
  "handleGameTickHost env currentTime s =
     (case currentWord s of
        None \<Rightarrow> s
      | Some w \<Rightarrow>
          (let avail = available w (revealedIndices s);
               newIndices =
                 (if length avail > 0
                  then revealedIndices s @ [avail ! (randomDraw env mod length avail)]
                  else revealedIndices s);
               newHintCount = min (revealedHintCount s + 1) (length (hints w))
           in broadcastAction (SYNC_HINT_UPDATE newIndices newHintCount)
                (s\<lparr>revealedIndices := newIndices, revealedHintCount := newHintCount\<rparr>)))"

text \<open>
  \<^verbatim>\<open>handleTimeOutHost\<close>. The \<^verbatim>\<open>nextRoundHost\<close> it schedules is the one of the render that
  created the interval; the model gives it the round number and the word list of the
  state at the time-out, which are the same whenever the round number changed together
  with the current word, as \<^verbatim>\<open>nextRoundHost\<close> itself changes them.
\<close>

definition handleTimeOutHost :: "Env \<Rightarrow> App \<Rightarrow> App" where
  "handleTimeOutHost env s =
     setTimeout (NextRoundHost (round s) (wordList s)) 4000
       (addSystemMessage env
          (''Time's up! The word was ''
             @ (case currentWord s of None \<Rightarrow> ''undefined'' | Some w \<Rightarrow> word w) @ ''.'')
          (broadcastAction (SYNC_STATE (no_fields\<lparr>status_d := Some ROUND_OVER\<rparr>))
             (s\<lparr>gameStatus := ROUND_OVER\<rparr>)))"

text \<open>
  One firing of the host's \<^verbatim>\<open>setInterval\<close> callback. The interval exists only while
  \<^verbatim>\<open>isHost && gameStatus === GameStatus.PLAYING\<close> (the effect that creates it clears it
  otherwise), so in any other state a tick is no step at all.
\<close>

definition hostTimerTick :: "Env \<Rightarrow> App \<Rightarrow> App" where
  "hostTimerTick env s =
     (if isHost s \<and> gameStatus s = PLAYING then
        (let prev = timeLeft s in
         if prev \<le> 1 then (handleTimeOutHost env s)\<lparr>timeLeft := 0\<rparr>
         else
           (let nextTime = prev - 1;
                s1 = (if nextTime mod HINT_INTERVAL = 0 \<and> nextTime \<noteq> ROUND_TIME \<and> nextTime > 0
                      then handleGameTickHost env nextTime s else s)
            in (broadcastAction (SYNC_TIME nextTime) s1)\<lparr>timeLeft := nextTime\<rparr>))
      else s)"

section \<open>Client logic and socket listeners (App.tsx)\<close>

text \<open>
  \<^verbatim>\<open>handleGuess\<close>, the submit handler of the chat form, on the host as on any client.
  It returns at once when the trimmed input is empty, when there is no player or no
  current word, or when the status is not \<open>PLAYING\<close>.
\<close>

definition handleGuess :: "Env \<Rightarrow> App \<Rightarrow> App" where
  "handleGuess env s =
     (case player s of
        None \<Rightarrow> s
      | Some p \<Rightarrow>
         (case currentWord s of
            None \<Rightarrow> s
          | Some w \<Rightarrow>
             if trim (inputValue s) = [] \<or> gameStatus s \<noteq> PLAYING then s
             else
               (let txt = trim (inputValue s);
                    guess = toUpperCase txt;
                    isCorrect = (guess = word w)
                in if isCorrect then
                     (let points = calculateScore s;
                          newScore = score p + points;
                          updatedPlayer = p\<lparr>score := newScore\<rparr>;
                          msg = \<lparr>id_m = toString (now env), playerId = id_p p,
                                 playerName = name_p p, text_m = txt,
                                 type_m = guess_correct, timestamp = now env\<rparr>;
                          s1 = s\<lparr>player := Some updatedPlayer, inputValue := [],
                                 chatMessages := chatMessages s @ [msg]\<rparr>;
                          s2 = broadcastAction (CHAT msg)
                                 (broadcastAction
                                    (PLAYER_SCORED (id_p p) newScore points (name_p p)) s1)
                      in s2\<lparr>roundWinners :=
                              (if list_ex (\<lambda>q. id_p q = id_p p) (roundWinners s2)
                               then roundWinners s2
                               else roundWinners s2 @ [p\<lparr>score := newScore\<rparr>])\<rparr>)
                   else
                     (let msg = \<lparr>id_m = toString (now env), playerId = id_p p,
                                 playerName = name_p p, text_m = txt,
                                 type_m = chat, timestamp = now env\<rparr>
                      in (broadcastAction (CHAT msg)
                            (s\<lparr>chatMessages := chatMessages s @ [msg]\<rparr>))
                         \<lparr>inputValue := []\<rparr>))))"

text \<open>The \<^verbatim>\<open>SYNC_STATE\<close> case of the \<^verbatim>\<open>GAME_ACTION\<close> listener, one \<^verbatim>\<open>if\<close> after the other.\<close>

definition applySyncState :: "Env \<Rightarrow> SyncState \<Rightarrow> App \<Rightarrow> App" where
  "applySyncState env d s =
     (let s1 = (case status_d d of Some st \<Rightarrow> s\<lparr>gameStatus := st\<rparr> | None \<Rightarrow> s);
          s2 = (case currentWord_d d of Some w \<Rightarrow> s1\<lparr>currentWord := Some w\<rparr> | None \<Rightarrow> s1);
          s3 = (case timeLeft_d d of Some t \<Rightarrow> s2\<lparr>timeLeft := t\<rparr> | None \<Rightarrow> s2);
          s4 = (case round_d d of
                  Some r \<Rightarrow> if r = 0 then s3 else s3\<lparr>round := r\<rparr>
                | None \<Rightarrow> s3);
          s5 = (case revealedIndices_d d of
                  Some ix \<Rightarrow> s4\<lparr>revealedIndices := ix\<rparr>
                | None \<Rightarrow> s4);
          s6 = (case revealedHintCount_d d of
                  Some c \<Rightarrow> if c = 0 then s5 else s5\<lparr>revealedHintCount := c\<rparr>
                | None \<Rightarrow> s5)
      in if status_d d = Some PLAYING then
           addSystemMessage env
             (''Round '' @ (case round_d d of None \<Rightarrow> ''undefined'' | Some r \<Rightarrow> toString r)
                @ '' started!'')
             (s6\<lparr>roundWinners := []\<rparr>)
         else s6)"

text \<open>The \<^verbatim>\<open>CHAT\<close> case: an entry whose id the log already holds is ignored.\<close>

definition applyChat :: "ChatMessage \<Rightarrow> ChatMessage list \<Rightarrow> ChatMessage list" where
  "applyChat d prev = (if list_ex (\<lambda>m. id_m m = id_m d) prev then prev else prev @ [d])"

text \<open>
  The \<^verbatim>\<open>PLAYER_SCORED\<close> case. The listener is registered by an effect with an empty
  dependency list, so the \<^verbatim>\<open>otherPlayers\<close> its closure reads is the value at mount, the
  empty list; the state updaters read the current state.
\<close>

definition applyPlayerScored :: "Env \<Rightarrow> string \<Rightarrow> int \<Rightarrow> int \<Rightarrow> string \<Rightarrow> App \<Rightarrow> App" where
  "applyPlayerScored env pid sc pts pname s =
     (let s1 = s\<lparr>otherPlayers :=
                   map (\<lambda>p. if id_p p = pid then p\<lparr>score := sc\<rparr> else p) (otherPlayers s)\<rparr>;
          s2 = addSystemMessage env
                 (pname @ '' guessed the word! (+'' @ toStringInt pts @ '')'') s1;
          prev = roundWinners s2;
          s3 = s2\<lparr>roundWinners :=
                 (if list_ex (\<lambda>p. id_p p = pid) prev then prev
                  else
                    (case (case find (\<lambda>p. id_p p = pid) prev of
                             Some e \<Rightarrow> Some e
                           | None \<Rightarrow> find (\<lambda>p. id_p p = pid) []) of
                       Some existing \<Rightarrow> prev @ [existing\<lparr>score := sc\<rparr>]
                     | None \<Rightarrow>
                         prev @ [\<lparr>id_p = pid, name_p = pname, score = sc, isSelf = False,
                                  avatarColor = ''bg-gray-500''\<rparr>]))\<rparr>;
          s4 = s3\<lparr>gameStatus := ROUND_OVER\<rparr>
      in if isHost s4 then setTimeout EmptyBody 3000 s4 else s4)"

text \<open>The \<^verbatim>\<open>GAME_ACTION\<close> listener that every participant registers at mount.\<close>

definition onGameAction :: "Env \<Rightarrow> Action \<Rightarrow> App \<Rightarrow> App" where
  "onGameAction env a s =
     (case a of
        SYNC_STATE d \<Rightarrow> applySyncState env d s
      | SYNC_TIME t \<Rightarrow> s\<lparr>timeLeft := t\<rparr>
      | SYNC_HINT_UPDATE ix c \<Rightarrow>
          (let s1 = s\<lparr>revealedIndices := ix\<rparr>
           in if c = 0 then s1 else s1\<lparr>revealedHintCount := c\<rparr>)
      | CHAT d \<Rightarrow> s\<lparr>chatMessages := applyChat d (chatMessages s)\<rparr>
      | PLAYER_SCORED pid sc pts pname \<Rightarrow> applyPlayerScored env pid sc pts pname s)"

text \<open>
  The second \<^verbatim>\<open>GAME_ACTION\<close> listener, which only the host registers: on
  \<^verbatim>\<open>PLAYER_SCORED\<close> it ends the round and schedules the next one.
\<close>

definition hostOnGameAction :: "Action \<Rightarrow> App \<Rightarrow> App" where
  "hostOnGameAction a s =
     (case a of
        PLAYER_SCORED pid sc pts pname \<Rightarrow>
          setTimeout (NextRoundHost (round s) (wordList s)) 3000
            (broadcastAction (SYNC_STATE (no_fields\<lparr>status_d := Some ROUND_OVER\<rparr>))
               (s\<lparr>gameStatus := ROUND_OVER\<rparr>))
      | _ \<Rightarrow> s)"

text \<open>
  Delivery of one \<^verbatim>\<open>GAME_ACTION\<close> message from the relay: \<^verbatim>\<open>emit\<close> calls the listeners
  in the order of their registration.
\<close>

definition receiveGameAction :: "Env \<Rightarrow> Action \<Rightarrow> App \<Rightarrow> App" where
  "receiveGameAction env a s =
     (let s1 = onGameAction env a s in if isHost s then hostOnGameAction a s1 else s1)"


definition isSyncTime :: "Action \<Rightarrow> bool" where
  "isSyncTime a = (case a of SYNC_TIME t \<Rightarrow> True | _ \<Rightarrow> False)"

text \<open>What a step broadcast: the calls of \<^verbatim>\<open>broadcastAction\<close> it added to those before it.\<close>

definition newlySent :: "App \<Rightarrow> App \<Rightarrow> Action list" where
  "newlySent s s' = drop (length (sent s)) (sent s')"

section \<open>The relay server (server.js)\<close>

text \<open>
  A connection is named by a number. The server stores each player with the
  connection that joined it (\<^verbatim>\<open>{ ...player, ws }\<close>); a room is its ordered player list
  and its \<^verbatim>\<open>hostId\<close>.
\<close>

type_synonym conn = nat

record Member = Player +
  ws :: conn

record Room =
  players :: "Member list"
  hostId :: string

text \<open>The envelopes the server sends, \<^verbatim>\<open>{ type, payload }\<close>.\<close>

datatype ServerMsg =
    ROOM_JOINED bool "Player list"
  | PLAYER_JOINED Player
  | PLAYER_LEFT "string option"
  | BECAME_HOST
  | GAME_ACTION Action

text \<open>
  The server's state: the \<^verbatim>\<open>rooms\<close> map, the two variables \<^verbatim>\<open>currentRoomId\<close> and
  \<^verbatim>\<open>currentPlayerId\<close> of each connection's closure (\<^verbatim>\<open>null\<close> is \<open>None\<close>), the
  \<^verbatim>\<open>readyState\<close> of each connection (1 is OPEN, 3 is CLOSED), and the calls of
  \<^verbatim>\<open>ws.send\<close> in order, each with the connection it was made on.
\<close>

record Server =
  rooms :: "string \<rightharpoonup> Room"
  currentRoomId :: "conn \<Rightarrow> string option"
  currentPlayerId :: "conn \<Rightarrow> string option"
  readyState :: "conn \<Rightarrow> nat"
  delivered :: "(conn \<times> ServerMsg) list"

definition emptyServer :: Server where
  "emptyServer = \<lparr>rooms = Map.empty, currentRoomId = (\<lambda>c. None),
     currentPlayerId = (\<lambda>c. None), readyState = (\<lambda>c. 1), delivered = []\<rparr>"

text \<open>\<^verbatim>\<open>Array.prototype.findIndex\<close>: the first position that satisfies the test.\<close>

fun findIndex :: "('a \<Rightarrow> bool) \<Rightarrow> 'a list \<Rightarrow> nat option" where
  "findIndex P [] = None"
| "findIndex P (x # xs) = (if P x then Some 0 else map_option Suc (findIndex P xs))"

text \<open>
  \<^verbatim>\<open>broadcastToRoom\<close>: to everyone in the room except the sender, on open connections
  only. An unknown room (or \<^verbatim>\<open>null\<close>) is dropped silently.
\<close>

definition broadcastToRoom ::
  "string option \<Rightarrow> ServerMsg \<Rightarrow> string option \<Rightarrow> Server \<Rightarrow> Server" where
  "broadcastToRoom roomId msg excludeId st =
     (case roomId of
        None \<Rightarrow> st
      | Some rid \<Rightarrow>
         (case rooms st rid of
            None \<Rightarrow> st
          | Some room \<Rightarrow>
              st\<lparr>delivered := delivered st @
                   map (\<lambda>p. (ws p, msg))
                     (filter (\<lambda>p. Some (id_p p) \<noteq> excludeId \<and> readyState st (ws p) = 1)
                        (players room))\<rparr>))"

text \<open>The \<^verbatim>\<open>JOIN_ROOM\<close> branch of the message handler of connection \<open>c\<close>.\<close>

definition onJoinRoom :: "conn \<Rightarrow> string \<Rightarrow> Player \<Rightarrow> Server \<Rightarrow> Server" where
  "onJoinRoom c roomId pl st =
     (let st1 = st\<lparr>currentRoomId := (currentRoomId st)(c := Some roomId),
                   currentPlayerId := (currentPlayerId st)(c := Some (id_p pl))\<rparr>;
          room0 = (case rooms st1 roomId of
                     None \<Rightarrow> \<lparr>players = [], hostId = id_p pl\<rparr>
                   | Some r \<Rightarrow> r);
          room1 = (case findIndex (\<lambda>p. id_p p = id_p pl) (players room0) of
                     Some i \<Rightarrow>
                       room0\<lparr>players := (players room0)
                                [i := (players room0 ! i)\<lparr>ws := c, name_p := name_p pl\<rparr>]\<rparr>
                   | None \<Rightarrow>
                       room0\<lparr>players := players room0 @
                                [\<lparr>id_p = id_p pl, name_p = name_p pl, score = score pl,
                                  isSelf = isSelf pl, avatarColor = avatarColor pl,
                                  ws = c\<rparr>]\<rparr>);
          st2 = st1\<lparr>rooms := (rooms st1)(roomId \<mapsto> room1)\<rparr>;
          isHost = (hostId room1 = id_p pl);
          st3 = st2\<lparr>delivered := delivered st2 @
                   [(c, ROOM_JOINED isHost (map Player.truncate (players room1)))]\<rparr>
      in broadcastToRoom (Some roomId) (PLAYER_JOINED pl) (Some (id_p pl)) st3)"

text \<open>The \<^verbatim>\<open>GAME_ACTION\<close> branch: forwarded to the sender's room, the sender excluded.\<close>

definition onGameActionRelay :: "conn \<Rightarrow> Action \<Rightarrow> Server \<Rightarrow> Server" where
  "onGameActionRelay c payload st =
     broadcastToRoom (currentRoomId st c) (GAME_ACTION payload) (currentPlayerId st c) st"

text \<open>
  The \<^verbatim>\<open>close\<close> handler of connection \<open>c\<close>, which runs once the connection is CLOSED.
  \<^verbatim>\<open>currentRoomId && rooms.has(currentRoomId)\<close> is false for \<^verbatim>\<open>null\<close>, for the empty
  string and for a room that is gone.
\<close>

definition onClose :: "conn \<Rightarrow> Server \<Rightarrow> Server" where
  "onClose c st =
     (let st0 = st\<lparr>readyState := (readyState st)(c := 3)\<rparr>
      in case currentRoomId st0 c of
           None \<Rightarrow> st0
         | Some rid \<Rightarrow>
            if rid = [] then st0
            else
              (case rooms st0 rid of
                 None \<Rightarrow> st0
               | Some room \<Rightarrow>
                  (let remaining =
                         filter (\<lambda>p. Some (id_p p) \<noteq> currentPlayerId st0 c) (players room);
                       st1 = st0\<lparr>rooms := (rooms st0)(rid \<mapsto> room\<lparr>players := remaining\<rparr>)\<rparr>;
                       st2 = broadcastToRoom (Some rid) (PLAYER_LEFT (currentPlayerId st0 c))
                               None st1
                   in case remaining of
                        [] \<Rightarrow> st2\<lparr>rooms := (rooms st2)(rid := None)\<rparr>
                      | newHost # others \<Rightarrow>
                          if Some (hostId room) = currentPlayerId st0 c then
                            (let st3 = st2\<lparr>rooms := (rooms st2)
                                          (rid \<mapsto> \<lparr>players = remaining,
                                                   hostId = id_p newHost\<rparr>)\<rparr>
                             in if readyState st3 (ws newHost) = 1
                                then st3\<lparr>delivered := delivered st3 @
                                            [(ws newHost, BECAME_HOST)]\<rparr>
                                else st3)
                          else st2)))"

text \<open>The events of the server, and a run of the server from its start.\<close>

datatype Event =
    JoinRoom conn string Player
  | GameAction conn Action
  | Close conn

fun step :: "Server \<Rightarrow> Event \<Rightarrow> Server" where
  "step st (JoinRoom c roomId pl) = onJoinRoom c roomId pl st"
| "step st (GameAction c payload) = onGameActionRelay c payload st"
| "step st (Close c) = onClose c st"

definition run :: "Event list \<Rightarrow> Server" where
  "run evs = foldl step emptyServer evs"

text \<open>The invariant of a room: it has members, no id twice, and its host among them.\<close>

definition roomOk :: "Room \<Rightarrow> bool" where
  "roomOk room = (players room \<noteq> [] \<and> distinct (map id_p (players room))
     \<and> hostId room \<in> set (map id_p (players room)))"

definition isBecameHost :: "conn \<times> ServerMsg \<Rightarrow> bool" where
  "isBecameHost cm = (snd cm = BECAME_HOST)"

section \<open>The word source (geminiService.ts)\<close>

text \<open>The fallback catalog, thirty words with three hints each.\<close>

definition GIANT_WORD_LIST :: "WordData list" where
  "GIANT_WORD_LIST =
    [\<lparr>word = ''BANANA'',
      hints = [''I am a fruit'', ''I am yellow and curved'',
        ''Monkeys love to eat me''],
      difficulty = easy\<rparr>,
     \<lparr>word = ''ELEPHANT'',
      hints = [''I am a very large land animal'', ''I have a long trunk'',
        ''I have big floppy ears''],
      difficulty = easy\<rparr>,
     \<lparr>word = ''GALAXY'',
      hints = [''I contain billions of stars'', ''The Milky Way is one of me'',
        ''I am held together by gravity''],
      difficulty = medium\<rparr>,
     \<lparr>word = ''ORCHESTRA'',
      hints = [''I am a large group of musicians'', ''I have a conductor'',
        ''I play symphonies''],
      difficulty = hard\<rparr>,
     \<lparr>word = ''VOLCANO'',
      hints = [''I am a mountain that opens downward'', ''I can erupt with lava'',
        ''I often have a crater''],
      difficulty = medium\<rparr>,
     \<lparr>word = ''PIZZA'',
      hints = [''I am a popular Italian dish'', ''I am round and sliced'',
        ''I have cheese and tomato sauce''],
      difficulty = easy\<rparr>,
     \<lparr>word = ''ASTRONAUT'',
      hints = [''I travel to space'', ''I wear a special suit'',
        ''I work on the ISS''],
      difficulty = medium\<rparr>,
     \<lparr>word = ''LIBRARY'',
      hints = [''I am a place with many books'', ''You must be quiet inside me'',
        ''You can borrow things from me''],
      difficulty = easy\<rparr>,
     \<lparr>word = ''DIAMOND'',
      hints = [''I am a very hard gemstone'', ''I am made of compressed carbon'',
        ''I am a girl's best friend''],
      difficulty = medium\<rparr>,
     \<lparr>word = ''PYRAMID'',
      hints = [''I am a triangular structure'', ''I am famous in Egypt'',
        ''I served as a tomb for pharaohs''],
      difficulty = medium\<rparr>,
     \<lparr>word = ''TORNADO'',
      hints = [''I am a violently rotating column of air'', ''I am often called a twister'',
        ''I occur during severe thunderstorms''],
      difficulty = medium\<rparr>,
     \<lparr>word = ''KANGAROO'',
      hints = [''I am an animal from Australia'', ''I hop to move around'',
        ''I carry my baby in a pouch''],
      difficulty = easy\<rparr>,
     \<lparr>word = ''CHOCOLATE'',
      hints = [''I am a sweet treat'', ''I am made from cocoa beans'',
        ''I come in dark, milk, and white varieties''],
      difficulty = easy\<rparr>,
     \<lparr>word = ''OCTOPUS'',
      hints = [''I live in the ocean'', ''I have eight arms'',
        ''I can squirt ink''],
      difficulty = medium\<rparr>,
     \<lparr>word = ''RAINBOW'',
      hints = [''I appear after rain'', ''I have seven colors'',
        ''I am an optical illusion in the sky''],
      difficulty = easy\<rparr>,
     \<lparr>word = ''HELICOPTER'',
      hints = [''I am an aircraft'', ''I have spinning rotors on top'',
        ''I can hover in place''],
      difficulty = medium\<rparr>,
     \<lparr>word = ''SNOWMAN'',
      hints = [''I am made of frozen water'', ''I have a carrot nose'',
        ''I melt in the sun''],
      difficulty = easy\<rparr>,
     \<lparr>word = ''TELESCOPE'',
      hints = [''I help you see far away'', ''Astronomers use me'',
        ''I use lenses or mirrors''],
      difficulty = medium\<rparr>,
     \<lparr>word = ''VAMPIRE'',
      hints = [''I am a mythical creature'', ''I drink blood'',
        ''I dislike garlic and sunlight''],
      difficulty = easy\<rparr>,
     \<lparr>word = ''SKELETON'',
      hints = [''I am inside your body'', ''I am made of bones'',
        ''I protect your organs''],
      difficulty = easy\<rparr>,
     \<lparr>word = ''SUBMARINE'',
      hints = [''I travel underwater'', ''I am used by the navy'',
        ''I use sonar to navigate''],
      difficulty = medium\<rparr>,
     \<lparr>word = ''JUNGLE'',
      hints = [''I am a dense forest'', ''I have a tropical climate'',
        ''Many wild animals live here''],
      difficulty = medium\<rparr>,
     \<lparr>word = ''BUTTERFLY'',
      hints = [''I start as a caterpillar'', ''I have colorful wings'',
        ''I drink nectar from flowers''],
      difficulty = easy\<rparr>,
     \<lparr>word = ''ROBOT'',
      hints = [''I am a machine'', ''I can be programmed'',
        ''I might take over the world someday''],
      difficulty = medium\<rparr>,
     \<lparr>word = ''ISLAND'',
      hints = [''I am land surrounded by water'', ''Hawaii is a famous example'',
        ''I can be tropical or rocky''],
      difficulty = easy\<rparr>,
     \<lparr>word = ''DENTIST'',
      hints = [''I am a doctor for teeth'', ''I fill cavities'',
        ''I tell you to floss''],
      difficulty = medium\<rparr>,
     \<lparr>word = ''PENGUIN'',
      hints = [''I am a bird that cannot fly'', ''I live in the southern hemisphere'',
        ''I waddle and swim''],
      difficulty = easy\<rparr>,
     \<lparr>word = ''FIREWORKS'',
      hints = [''I am used for celebrations'', ''I explode with light and noise'',
        ''I am common on New Year's Eve''],
      difficulty = medium\<rparr>,
     \<lparr>word = ''SUNFLOWER'',
      hints = [''I am a tall yellow flower'', ''I produce edible seeds'',
        ''I turn my head to follow the sun''],
      difficulty = easy\<rparr>,
     \<lparr>word = ''COMPASS'',
      hints = [''I am a navigation tool'', ''I always point North'',
        ''I use magnetism''],
      difficulty = medium\<rparr>]"

text \<open>
  What the call of the Gemini API does: it raises, or it returns a response whose
  \<^verbatim>\<open>text\<close> is a string or is missing.
\<close>

datatype GeminiOutcome = Raises | ResponseText "string option"

text \<open>
  \<^verbatim>\<open>[...GIANT_WORD_LIST].sort(() => 0.5 - Math.random()).slice(0, count)\<close>: the sort with
  a random comparison leaves some arrangement \<open>shuffled\<close> of the catalog, which the
  model takes from outside.
\<close>

definition fallbackWords :: "WordData list \<Rightarrow> nat \<Rightarrow> WordData list" where
  "fallbackWords shuffled n = take n shuffled"

text \<open>
  \<^verbatim>\<open>generateWords\<close>, with \<open>n\<close> for its \<^verbatim>\<open>count\<close>. \<open>apiKey\<close> is
  \<^verbatim>\<open>process.env.API_KEY\<close> (missing or empty is falsy),
  \<open>outcome\<close> what the API call does, \<open>jsonParse\<close> the result of \<^verbatim>\<open>JSON.parse\<close> on a text
  (\<open>None\<close> when it throws). Every exception of the \<^verbatim>\<open>try\<close> block ends in the \<^verbatim>\<open>catch\<close>
  branch, so the function returns a list on every path.
\<close>

definition generateWords ::
  "string option \<Rightarrow> GeminiOutcome \<Rightarrow> (string \<Rightarrow> WordData list option) \<Rightarrow> WordData list
     \<Rightarrow> nat \<Rightarrow> WordData list" where
  "generateWords apiKey outcome jsonParse shuffled n =
     (if apiKey = None \<or> apiKey = Some [] then fallbackWords shuffled n
      else
        (case outcome of
           Raises \<Rightarrow> fallbackWords shuffled n
         | ResponseText None \<Rightarrow> fallbackWords shuffled n
         | ResponseText (Some txt) \<Rightarrow>
             if txt = [] then fallbackWords shuffled n
             else
               (case jsonParse txt of
                  None \<Rightarrow> fallbackWords shuffled n
                | Some words \<Rightarrow> words)))"

text \<open>A valid word round: a word, three hints, a difficulty.\<close>

definition validWordRound :: "WordData \<Rightarrow> bool" where
  "validWordRound w = (word w \<noteq> [] \<and> length (hints w) = 3)"

text \<open>
  \<^verbatim>\<open>startGameAsHost\<close> after the words arrived: round 1 with \<^verbatim>\<open>words[0]\<close>, which is
  \<^verbatim>\<open>undefined\<close> for an empty list.
\<close>

definition startGameAsHost :: "Env \<Rightarrow> WordData list \<Rightarrow> App \<Rightarrow> App" where
  "startGameAsHost env words s =
     (if isHost s then
        startRoundHost env (case words of [] \<Rightarrow> None | w # rest \<Rightarrow> Some w) 1 words
          (s\<lparr>wordList := words, round := 1\<rparr>)
      else s)"

section \<open>Notions the properties are stated with\<close>



text \<open>The relayed game actions among the messages the server sent.\<close>

definition isGameAction :: "conn \<times> ServerMsg \<Rightarrow> bool" where
  "isGameAction cm = (case snd cm of GAME_ACTION a \<Rightarrow> True | _ \<Rightarrow> False)"

text \<open>The registry invariant: every room of the registry satisfies \<open>roomOk\<close>.\<close>

definition registryOk :: "Server \<Rightarrow> bool" where
  "registryOk st = (\<forall>rid room. rooms st rid = Some room \<longrightarrow> roomOk room)"

text \<open>What a step of the server sent: the calls of \<^verbatim>\<open>ws.send\<close> it added.\<close>

definition newlyDelivered :: "Server \<Rightarrow> Server \<Rightarrow> (conn \<times> ServerMsg) list" where
  "newlyDelivered st st' = drop (length (delivered st)) (delivered st')"

section \<open>Concrete inputs\<close>

text \<open>A clock reading with two draws, three players, a catalog word and a two-word phrase.\<close>

definition env0 :: Env where
  "env0 = \<lparr>now = 1700000000000, randomText = ''0.5'', randomDraw = 0\<rparr>"

definition ann :: Player where
  "ann = \<lparr>id_p = ''p-1'', name_p = ''Ann'', score = 0, isSelf = True,
     avatarColor = ''bg-red-500''\<rparr>"

definition bob :: Player where
  "bob = \<lparr>id_p = ''p-2'', name_p = ''Bob'', score = 0, isSelf = True,
     avatarColor = ''bg-blue-500''\<rparr>"

definition cat :: Player where
  "cat = \<lparr>id_p = ''p-3'', name_p = ''Cat'', score = 0, isSelf = True,
     avatarColor = ''bg-green-500''\<rparr>"

definition banana :: WordData where
  "banana = \<lparr>word = ''BANANA'',
     hints = [''I am a fruit'', ''I am yellow and curved'', ''Monkeys love to eat me''],
     difficulty = easy\<rparr>"

definition phrase :: WordData where
  "phrase = \<lparr>word = ''A B'', hints = [''First'', ''Second'', ''Third''], difficulty = easy\<rparr>"

text \<open>The host in the middle of round 1, with \<open>banana\<close> typed into the chat form.\<close>

definition hostPlaying :: App where
  "hostPlaying = initialApp\<lparr>player := Some ann, isHost := True, gameStatus := PLAYING,
     currentWord := Some banana, wordList := [banana, phrase], round := 1, timeLeft := 42,
     inputValue := ''banana''\<rparr>"


text \<open>The host one second before the timeout, and a host that has every letter shown.\<close>

definition lastSecond :: App where
  "lastSecond = hostPlaying\<lparr>timeLeft := 1\<rparr>"

definition allShown :: App where
  "allShown = hostPlaying\<lparr>currentWord := Some phrase, revealedIndices := [2, 0],
     revealedHintCount := 2\<rparr>"





text \<open>The \<open>PLAYER_SCORED\<close> action of the host's own correct guess at 42 seconds.\<close>

definition annScored :: Action where
  "annScored = PLAYER_SCORED ''p-1'' 730 730 ''Ann''"

text \<open>\<^verbatim>\<open>JSON.parse\<close> as far as the empty array goes: the text \<^verbatim>\<open>[]\<close> parses to no item.\<close>

definition parseEmptyArray :: "string \<Rightarrow> WordData list option" where
  "parseEmptyArray txt = (if txt = ''[]'' then Some [] else None)"

text \<open>
  Two runs of the server. In the first the host of a room of two leaves. In the second
  connection 2 joins the room twice, as \<open>bob\<close> and then as \<open>cat\<close>, and closes: the close
  handler removes \<open>cat\<close>, the player of its last join, and \<open>bob\<close> stays in the list on a
  closed connection.
\<close>

definition annMember :: Member where
  "annMember = \<lparr>id_p = ''p-1'', name_p = ''Ann'', score = 0, isSelf = True,
     avatarColor = ''bg-red-500'', ws = 1\<rparr>"

definition bobMember :: Member where
  "bobMember = \<lparr>id_p = ''p-2'', name_p = ''Bob'', score = 0, isSelf = True,
     avatarColor = ''bg-blue-500'', ws = 2\<rparr>"

definition twoJoinOneLeaves :: "Event list" where
  "twoJoinOneLeaves = [JoinRoom 1 ''ABC'' ann, JoinRoom 2 ''ABC'' bob, Close 1]"

definition ghostTrace :: "Event list" where
  "ghostTrace = [JoinRoom 1 ''ABC'' ann, JoinRoom 2 ''ABC'' bob, JoinRoom 2 ''ABC'' cat,
     Close 2]"

section \<open>Score formula\<close>

text \<open>
  Claim C7. The score for a correct guess equals \<open>timeLeft * 15 + 100\<close>: with
  \<open>timeLeft = 0\<close> it is exactly 100 (the flat bonus), with \<open>timeLeft = 10\<close> it is exactly
  250, and it is strictly positive for every \<open>timeLeft \<ge> 0\<close>.
\<close>

theorem calculateScore_formula:
  "calculateScore s = timeLeft s * 15 + 100
   \<and> (timeLeft s = 0 \<longrightarrow> calculateScore s = 100)
   \<and> (timeLeft s = 10 \<longrightarrow> calculateScore s = 250)
   \<and> (0 \<le> timeLeft s \<longrightarrow> 0 < calculateScore s)"
  by (simp add: calculateScore_def)

theorem calculateScore_formula_witness:
  "timeLeft (initialApp\<lparr>timeLeft := 0\<rparr>) = 0
   \<and> calculateScore (initialApp\<lparr>timeLeft := 0\<rparr>) = 100
   \<and> timeLeft (initialApp\<lparr>timeLeft := 10\<rparr>) = 10
   \<and> 0 \<le> timeLeft (initialApp\<lparr>timeLeft := 10\<rparr>)
   \<and> calculateScore (initialApp\<lparr>timeLeft := 10\<rparr>) = 250
   \<and> 0 < calculateScore (initialApp\<lparr>timeLeft := 10\<rparr>)"
  using calculateScore_formula [of "initialApp\<lparr>timeLeft := 0\<rparr>"]
    calculateScore_formula [of "initialApp\<lparr>timeLeft := 10\<rparr>"]
  by simp

section \<open>Client reconciliation\<close>

text \<open>
  Claim C8. For every \<open>SYNC_STATE\<close> event a client applies, only the fields present in
  the payload overwrite local state: each of \<open>status\<close>, \<open>currentWord\<close>, \<open>timeLeft\<close>,
  \<open>round\<close>, \<open>revealedIndices\<close> and \<open>revealedHintCount\<close> that is absent from the payload
  leaves the corresponding local value unchanged.
\<close>

theorem applySyncState_frame:
  "(status_d d = None \<longrightarrow> gameStatus (onGameAction env (SYNC_STATE d) s) = gameStatus s)
   \<and> (currentWord_d d = None \<longrightarrow> currentWord (onGameAction env (SYNC_STATE d) s) = currentWord s)
   \<and> (timeLeft_d d = None \<longrightarrow> timeLeft (onGameAction env (SYNC_STATE d) s) = timeLeft s)
   \<and> (round_d d = None \<longrightarrow> round (onGameAction env (SYNC_STATE d) s) = round s)
   \<and> (revealedIndices_d d = None \<longrightarrow>
        revealedIndices (onGameAction env (SYNC_STATE d) s) = revealedIndices s)
   \<and> (revealedHintCount_d d = None \<longrightarrow>
        revealedHintCount (onGameAction env (SYNC_STATE d) s) = revealedHintCount s)"
  by (simp add: onGameAction_def applySyncState_def addSystemMessage_def Let_def
        split: option.split)

theorem applySyncState_frame_witness:
  "status_d (no_fields\<lparr>timeLeft_d := Some 7\<rparr>) = None
   \<and> gameStatus (onGameAction env0 (SYNC_STATE (no_fields\<lparr>timeLeft_d := Some 7\<rparr>)) hostPlaying) = PLAYING
   \<and> timeLeft (onGameAction env0 (SYNC_STATE (no_fields\<lparr>timeLeft_d := Some 7\<rparr>)) hostPlaying) = 7
   \<and> currentWord_d (no_fields\<lparr>status_d := Some ROUND_OVER\<rparr>) = None
   \<and> timeLeft_d (no_fields\<lparr>status_d := Some ROUND_OVER\<rparr>) = None
   \<and> round_d (no_fields\<lparr>status_d := Some ROUND_OVER\<rparr>) = None
   \<and> revealedIndices_d (no_fields\<lparr>status_d := Some ROUND_OVER\<rparr>) = None
   \<and> revealedHintCount_d (no_fields\<lparr>status_d := Some ROUND_OVER\<rparr>) = None
   \<and> gameStatus (onGameAction env0 (SYNC_STATE (no_fields\<lparr>status_d := Some ROUND_OVER\<rparr>)) hostPlaying) = ROUND_OVER
   \<and> currentWord (onGameAction env0 (SYNC_STATE (no_fields\<lparr>status_d := Some ROUND_OVER\<rparr>)) hostPlaying) = Some banana
   \<and> timeLeft (onGameAction env0 (SYNC_STATE (no_fields\<lparr>status_d := Some ROUND_OVER\<rparr>)) hostPlaying) = 42
   \<and> round (onGameAction env0 (SYNC_STATE (no_fields\<lparr>status_d := Some ROUND_OVER\<rparr>)) hostPlaying) = 1
   \<and> revealedIndices (onGameAction env0 (SYNC_STATE (no_fields\<lparr>status_d := Some ROUND_OVER\<rparr>)) hostPlaying) = []
   \<and> revealedHintCount (onGameAction env0 (SYNC_STATE (no_fields\<lparr>status_d := Some ROUND_OVER\<rparr>)) hostPlaying) = 1"
  using applySyncState_frame [of "no_fields\<lparr>timeLeft_d := Some 7\<rparr>" env0 hostPlaying]
    applySyncState_frame [of "no_fields\<lparr>status_d := Some ROUND_OVER\<rparr>" env0 hostPlaying]
  by (simp add: no_fields_def hostPlaying_def initialApp_def onGameAction_def applySyncState_def)







section \<open>The host timer and the hint reveal step\<close>

lemma available_empty:
  "(\<forall>i<length (word w). word w ! i \<noteq> CHR '' '' \<longrightarrow> i \<in> set revealed) \<Longrightarrow> available w revealed = []"
  by (auto simp: available_def filter_empty_conv)

text \<open>
  Claim C10. If, when a hint reveal step fires, every non-space index of the current
  word is already in the revealed set, the revealed-index set stays as it is, the
  visible-hint count still advances to \<open>min (count + 1) (length hints)\<close>, and a
  \<open>SYNC_HINT_UPDATE\<close> broadcast carrying both values is still emitted.
\<close>

theorem reveal_step_exhausted:
  assumes "currentWord s = Some w"
    and "\<forall>i<length (word w). word w ! i \<noteq> CHR '' '' \<longrightarrow> i \<in> set (revealedIndices s)"
  shows "revealedIndices (handleGameTickHost env t s) = revealedIndices s
     \<and> revealedHintCount (handleGameTickHost env t s)
         = min (revealedHintCount s + 1) (length (hints w))
     \<and> sent (handleGameTickHost env t s)
         = sent s @ [SYNC_HINT_UPDATE (revealedIndices s)
                       (min (revealedHintCount s + 1) (length (hints w)))]"
  using assms
  by (simp add: handleGameTickHost_def available_empty broadcastAction_def Let_def)

theorem reveal_step_exhausted_witness:
  "currentWord allShown = Some phrase
   \<and> revealedIndices (handleGameTickHost env0 45 allShown) = [2, 0]
   \<and> revealedHintCount (handleGameTickHost env0 45 allShown) = 3
   \<and> sent (handleGameTickHost env0 45 allShown) = [SYNC_HINT_UPDATE [2, 0] 3]"
proof -
  have w: "currentWord allShown = Some phrase"
    by (simp add: allShown_def)
  have r: "\<forall>i<length (word phrase). word phrase ! i \<noteq> CHR '' '' \<longrightarrow> i \<in> set (revealedIndices allShown)"
    by (simp add: allShown_def phrase_def nth_Cons' less_Suc_eq All_less_Suc numeral_3_eq_3)
  show ?thesis
    using reveal_step_exhausted [OF w r, of env0 45]
    by (simp add: allShown_def phrase_def hostPlaying_def initialApp_def)
qed

lemma sent_handleGameTickHost:
  "\<exists>xs. sent (handleGameTickHost env t s) = sent s @ xs \<and> filter isSyncTime xs = []"
  by (cases "currentWord s")
     (simp_all add: handleGameTickHost_def broadcastAction_def Let_def isSyncTime_def)

text \<open>
  Claim C2, as amended. On every tick of the host's timer while the status is \<open>PLAYING\<close>
  and more than one second remains, the host decrements the remaining time and
  broadcasts the new value as the tick's one \<open>SYNC_TIME\<close>, after any hint update. On the
  tick on which the remaining time reaches zero it sets the time to 0 and broadcasts
  only the status change to \<open>ROUND_OVER\<close>.
\<close>

theorem hostTimerTick_broadcast:
  assumes "isHost s" and "gameStatus s = PLAYING"
  shows "sent (hostTimerTick env s) = sent s @ newlySent s (hostTimerTick env s)
     \<and> (1 < timeLeft s \<longrightarrow>
          timeLeft (hostTimerTick env s) = timeLeft s - 1
          \<and> filter isSyncTime (newlySent s (hostTimerTick env s)) = [SYNC_TIME (timeLeft s - 1)]
          \<and> last (sent (hostTimerTick env s)) = SYNC_TIME (timeLeft s - 1))
     \<and> (timeLeft s \<le> 1 \<longrightarrow>
          timeLeft (hostTimerTick env s) = 0
          \<and> newlySent s (hostTimerTick env s)
              = [SYNC_STATE (no_fields\<lparr>status_d := Some ROUND_OVER\<rparr>)])"
proof -
  obtain xs where xs: "sent (handleGameTickHost env (timeLeft s - 1) s) = sent s @ xs"
      "filter isSyncTime xs = []"
    using sent_handleGameTickHost by blast
  show ?thesis
    using assms xs
    by (simp add: hostTimerTick_def newlySent_def broadcastAction_def Let_def
          handleTimeOutHost_def setTimeout_def addSystemMessage_def isSyncTime_def)
qed

theorem hostTimerTick_broadcast_witness:
  "isHost hostPlaying \<and> gameStatus hostPlaying = PLAYING \<and> 1 < timeLeft hostPlaying
   \<and> timeLeft (hostTimerTick env0 hostPlaying) = 41
   \<and> newlySent hostPlaying (hostTimerTick env0 hostPlaying) = [SYNC_TIME 41]
   \<and> isHost lastSecond \<and> gameStatus lastSecond = PLAYING \<and> timeLeft lastSecond \<le> 1
   \<and> timeLeft (hostTimerTick env0 lastSecond) = 0
   \<and> newlySent lastSecond (hostTimerTick env0 lastSecond)
        = [SYNC_STATE (no_fields\<lparr>status_d := Some ROUND_OVER\<rparr>)]"
proof -
  have a: "isHost hostPlaying" "gameStatus hostPlaying = PLAYING"
    by (simp_all add: hostPlaying_def)
  have b: "isHost lastSecond" "gameStatus lastSecond = PLAYING"
    by (simp_all add: lastSecond_def hostPlaying_def)
  show ?thesis
    using hostTimerTick_broadcast [OF a, of env0] hostTimerTick_broadcast [OF b, of env0]
    by (simp add: lastSecond_def hostPlaying_def initialApp_def hostTimerTick_def newlySent_def
          broadcastAction_def HINT_INTERVAL_def ROUND_TIME_def)
qed

text \<open>
  The claim as first stated asks for a \<open>SYNC_TIME\<close> on the tick that reaches zero too.
  With one second left the host's tick sets the time to 0 and broadcasts no \<open>SYNC_TIME\<close>.
\<close>

theorem last_tick_no_sync_time:
  "isHost lastSecond \<and> gameStatus lastSecond = PLAYING \<and> timeLeft lastSecond = 1
   \<and> timeLeft (hostTimerTick env0 lastSecond) = 0
   \<and> sent (hostTimerTick env0 lastSecond) = [SYNC_STATE (no_fields\<lparr>status_d := Some ROUND_OVER\<rparr>)]
   \<and> filter isSyncTime (sent (hostTimerTick env0 lastSecond)) = []"
  by (simp add: lastSecond_def hostPlaying_def initialApp_def hostTimerTick_def
        handleTimeOutHost_def setTimeout_def addSystemMessage_def broadcastAction_def
        isSyncTime_def)

section \<open>Reveal monotonicity within a round\<close>





















section \<open>Correct guesses on the host\<close>

lemma trim_banana: "trim ''banana'' = ''banana''"
  by (simp add: trim_def isWhiteSpace_def)

lemma upper_banana: "toUpperCase ''banana'' = ''BANANA''"
  by code_simp

text \<open>
  A correct guess of another player reaches the host as a \<open>PLAYER_SCORED\<close> action: the
  host ends the round at once, broadcasts the status change, records the scorer as a
  round winner and schedules round advancement after 3000 milliseconds.
\<close>

lemma host_ends_round_on_remote_score:
  assumes "isHost s"
  shows "gameStatus (receiveGameAction env (PLAYER_SCORED pid sc pts pname) s) = ROUND_OVER
     \<and> sent (receiveGameAction env (PLAYER_SCORED pid sc pts pname) s)
         = sent s @ [SYNC_STATE (no_fields\<lparr>status_d := Some ROUND_OVER\<rparr>)]
     \<and> timeouts (receiveGameAction env (PLAYER_SCORED pid sc pts pname) s)
         = timeouts s @ [(3000, EmptyBody), (3000, NextRoundHost (round s) (wordList s))]
     \<and> list_ex (\<lambda>p. id_p p = pid)
          (roundWinners (receiveGameAction env (PLAYER_SCORED pid sc pts pname) s))"
  using assms
  by (auto simp: receiveGameAction_def onGameAction_def hostOnGameAction_def
        applyPlayerScored_def setTimeout_def broadcastAction_def addSystemMessage_def Let_def
        find_Some_iff list_ex_iff split: option.split)

text \<open>
  Claim C1. When a correct guess is received by the host, from any client, including
  the host's own local guess, the status becomes \<open>ROUND_OVER\<close> at once, the status
  change is broadcast, the scoring player is recorded as a round winner and round
  advancement is invoked after 3 seconds. The host's own guess does not do so:
  \<open>handleGuess\<close> records the winner and broadcasts \<open>PLAYER_SCORED\<close> and \<open>CHAT\<close>, but
  the status stays \<open>PLAYING\<close>, no status change is broadcast and nothing is scheduled;
  and the relay forwards the host's \<open>PLAYER_SCORED\<close> to the other members only, so the
  host's listeners never see it.
\<close>

theorem host_own_guess_keeps_playing:
  "isHost hostPlaying \<and> gameStatus hostPlaying = PLAYING
   \<and> toUpperCase (trim (inputValue hostPlaying)) = word banana
   \<and> gameStatus (handleGuess env0 hostPlaying) = PLAYING
   \<and> timeouts (handleGuess env0 hostPlaying) = []
   \<and> map id_p (roundWinners (handleGuess env0 hostPlaying)) = [''p-1'']
   \<and> sent (handleGuess env0 hostPlaying)
       = [annScored,
          CHAT \<lparr>id_m = toString 1700000000000, playerId = ''p-1'', playerName = ''Ann'',
                text_m = ''banana'', type_m = guess_correct, timestamp = 1700000000000\<rparr>]
   \<and> filter isGameAction
        (delivered (run [JoinRoom 1 ''ABC'' ann, JoinRoom 2 ''ABC'' bob,
                         GameAction 1 annScored]))
       = [(2, GAME_ACTION annScored)]"
  by (simp add: hostPlaying_def initialApp_def handleGuess_def trim_banana upper_banana banana_def ann_def
        bob_def env0_def calculateScore_def broadcastAction_def annScored_def Let_def
        run_def emptyServer_def onJoinRoom_def onGameActionRelay_def broadcastToRoom_def
        isGameAction_def Player.truncate_def)

section \<open>The fallback of the word source\<close>

lemma catalog_length: "length GIANT_WORD_LIST = 30"
  by (simp add: GIANT_WORD_LIST_def)

lemma catalog_valid: "list_all validWordRound GIANT_WORD_LIST"
  by (simp add: GIANT_WORD_LIST_def validWordRound_def)

text \<open>
  Every failure path of \<open>generateWords\<close> ends in the fallback, and the fallback for 5
  rounds is 5 valid word rounds of the catalog, whatever the arrangement.
\<close>

lemma fallback_five_from_catalog:
  assumes "mset shuffled = mset GIANT_WORD_LIST"
  shows "length (fallbackWords shuffled 5) = 5
     \<and> set (fallbackWords shuffled 5) \<subseteq> set GIANT_WORD_LIST
     \<and> list_all validWordRound (fallbackWords shuffled 5)"
proof -
  have len: "length shuffled = 30"
    using assms catalog_length by (metis size_mset)
  have sub: "set shuffled = set GIANT_WORD_LIST"
    using assms by (metis set_mset_mset)
  have "set (take 5 shuffled) \<subseteq> set GIANT_WORD_LIST"
    using sub set_take_subset by fastforce
  then show ?thesis
    using len catalog_valid by (auto simp: fallbackWords_def list_all_iff)
qed

lemma generateWords_falls_back:
  assumes "apiKey = None \<or> apiKey = Some [] \<or> outcome = Raises \<or> outcome = ResponseText None
     \<or> outcome = ResponseText (Some []) \<or> (\<exists>txt. outcome = ResponseText (Some txt) \<and> jsonParse txt = None)"
  shows "generateWords apiKey outcome jsonParse shuffled n = fallbackWords shuffled n"
  using assms by (auto simp: generateWords_def split: GeminiOutcome.split option.split)

text \<open>
  Claim C5. If the word source raises an error or returns zero items, a request for 5
  rounds returns exactly 5 valid word rounds of the built-in catalog. A raise does
  (5 items); a response whose text is the empty array does not: \<open>generateWords\<close> returns
  the parsed list as it is, no item at all, and \<open>startGameAsHost\<close> then starts round 1
  with no current word.
\<close>

theorem generateWords_empty_array:
  "generateWords (Some ''key'') (ResponseText (Some ''[]'')) parseEmptyArray GIANT_WORD_LIST 5 = []
   \<and> length (generateWords (Some ''key'') Raises parseEmptyArray GIANT_WORD_LIST 5) = 5
   \<and> currentWord (startGameAsHost env0
        (generateWords (Some ''key'') (ResponseText (Some ''[]'')) parseEmptyArray GIANT_WORD_LIST 5)
        (initialApp\<lparr>isHost := True\<rparr>)) = None
   \<and> gameStatus (startGameAsHost env0
        (generateWords (Some ''key'') (ResponseText (Some ''[]'')) parseEmptyArray GIANT_WORD_LIST 5)
        (initialApp\<lparr>isHost := True\<rparr>)) = PLAYING"
  by (simp add: generateWords_def parseEmptyArray_def fallbackWords_def catalog_length
        startGameAsHost_def startRoundHost_def broadcastAction_def addSystemMessage_def
        initialApp_def)

section \<open>The registry invariant\<close>

lemma broadcastToRoom_rooms: "rooms (broadcastToRoom r m e st) = rooms st"
  by (simp add: broadcastToRoom_def split: option.split)

lemma broadcastToRoom_readyState: "readyState (broadcastToRoom r m e st) = readyState st"
  by (simp add: broadcastToRoom_def split: option.split)

lemma findIndex_Some: "findIndex P xs = Some i \<Longrightarrow> i < length xs \<and> P (xs ! i)"
  by (induction xs arbitrary: i) (auto split: if_splits)

lemma findIndex_None: "findIndex P xs = None \<Longrightarrow> \<forall>x \<in> set xs. \<not> P x"
  by (induction xs) (auto split: if_splits)

lemma ids_after_reconnect:
  "i < length ps \<Longrightarrow> map id_p (ps[i := (ps ! i)\<lparr>ws := c, name_p := n\<rparr>]) = map id_p ps"
  by (simp add: map_update list_update_same_conv)

lemma roomOk_same_ids:
  "map id_p (players r') = map id_p (players r) \<Longrightarrow> hostId r' = hostId r \<Longrightarrow> roomOk r
   \<Longrightarrow> roomOk r'"
  unfolding roomOk_def by (metis map_is_Nil_conv)

lemma roomOk_join:
  assumes "rooms st rid = None \<or> (\<exists>r. rooms st rid = Some r \<and> roomOk r)"
  shows "\<exists>r. rooms (onJoinRoom c rid pl st) rid = Some r \<and> roomOk r"
proof (cases "rooms st rid")
  case None
  then show ?thesis
    by (simp add: onJoinRoom_def broadcastToRoom_rooms roomOk_def Let_def)
next
  case (Some r)
  then have ok: "roomOk r" using assms by simp
  show ?thesis
  proof (cases "findIndex (\<lambda>p. id_p p = id_p pl) (players r)")
    case None
    from findIndex_None [OF this] have "id_p pl \<notin> set (map id_p (players r))"
      by auto
    then show ?thesis
      using Some None ok
      by (simp add: onJoinRoom_def broadcastToRoom_rooms roomOk_def Let_def)
  next
    case (Some i)
    from findIndex_Some [OF this] have "i < length (players r)" by simp
    then have "roomOk (r\<lparr>players := (players r)
        [i := (players r ! i)\<lparr>ws := c, name_p := name_p pl\<rparr>]\<rparr>)"
      using ok roomOk_same_ids [of "r\<lparr>players := (players r)
        [i := (players r ! i)\<lparr>ws := c, name_p := name_p pl\<rparr>]\<rparr>" r]
      by (simp add: ids_after_reconnect)
    then show ?thesis
      using \<open>rooms st rid = Some r\<close> Some
      by (simp add: onJoinRoom_def broadcastToRoom_rooms Let_def)
  qed
qed

lemma onJoinRoom_other: "rid' \<noteq> rid \<Longrightarrow> rooms (onJoinRoom c rid pl st) rid' = rooms st rid'"
  by (simp add: onJoinRoom_def broadcastToRoom_rooms Let_def)

lemma registryOk_join: "registryOk st \<Longrightarrow> registryOk (onJoinRoom c rid pl st)"
proof -
  assume ok: "registryOk st"
  have "rooms st rid = None \<or> (\<exists>r. rooms st rid = Some r \<and> roomOk r)"
    using ok by (cases "rooms st rid") (simp_all add: registryOk_def)
  from roomOk_join [OF this, of c pl] obtain r where
    r: "rooms (onJoinRoom c rid pl st) rid = Some r" "roomOk r" by blast
  show ?thesis
    unfolding registryOk_def
  proof (intro allI impI)
    fix rid' room
    assume a: "rooms (onJoinRoom c rid pl st) rid' = Some room"
    show "roomOk room"
    proof (cases "rid' = rid")
      case True
      then show ?thesis using a r by simp
    next
      case False
      then show ?thesis using a ok by (simp add: onJoinRoom_other registryOk_def)
    qed
  qed
qed

lemma roomOk_after_leave:
  assumes ok: "roomOk room"
    and rem: "filter (\<lambda>p. Some (id_p p) \<noteq> cur) (players room) = m # others"
  shows "roomOk \<lparr>players = m # others,
            hostId = (if Some (hostId room) = cur then id_p m else hostId room)\<rparr>"
proof -
  have d: "distinct (map id_p (m # others))"
    using ok rem by (metis roomOk_def distinct_map_filter)
  have h: "Some (hostId room) \<noteq> cur \<Longrightarrow> hostId room \<in> set (map id_p (m # others))"
  proof -
    assume n: "Some (hostId room) \<noteq> cur"
    from ok obtain p where p: "p \<in> set (players room)" "id_p p = hostId room"
      by (auto simp: roomOk_def)
    then have "p \<in> set (filter (\<lambda>p. Some (id_p p) \<noteq> cur) (players room))"
      using n by simp
    then show ?thesis using p rem by (metis image_eqI set_map)
  qed
  show ?thesis using d h by (auto simp: roomOk_def)
qed

lemma room_players_update: "room\<lparr>players := ps\<rparr> = \<lparr>players = ps, hostId = hostId room\<rparr>"
  by (cases room) simp

lemma onClose_rooms_none: "currentRoomId st c = None \<Longrightarrow> rooms (onClose c st) = rooms st"
  by (simp add: onClose_def Let_def)

lemma onClose_rooms_empty: "currentRoomId st c = Some [] \<Longrightarrow> rooms (onClose c st) = rooms st"
  by (simp add: onClose_def Let_def)

lemma onClose_rooms_gone:
  "currentRoomId st c = Some rid \<Longrightarrow> rooms st rid = None \<Longrightarrow> rooms (onClose c st) = rooms st"
  by (simp add: onClose_def Let_def)

lemma onClose_rooms_last:
  "currentRoomId st c = Some rid \<Longrightarrow> rid \<noteq> [] \<Longrightarrow> rooms st rid = Some room
   \<Longrightarrow> filter (\<lambda>p. Some (id_p p) \<noteq> currentPlayerId st c) (players room) = []
   \<Longrightarrow> rooms (onClose c st) = (rooms st)(rid := None)"
  by (simp add: onClose_def Let_def broadcastToRoom_rooms)

lemma onClose_rooms_stay:
  "currentRoomId st c = Some rid \<Longrightarrow> rid \<noteq> [] \<Longrightarrow> rooms st rid = Some room
   \<Longrightarrow> filter (\<lambda>p. Some (id_p p) \<noteq> currentPlayerId st c) (players room) = m # others
   \<Longrightarrow> rooms (onClose c st) =
       (rooms st)(rid \<mapsto> \<lparr>players = m # others,
          hostId = (if Some (hostId room) = currentPlayerId st c then id_p m else hostId room)\<rparr>)"
  by (simp add: onClose_def Let_def broadcastToRoom_rooms room_players_update)

lemma registryOk_close: "registryOk st \<Longrightarrow> registryOk (onClose c st)"
proof -
  assume ok: "registryOk st"
  show ?thesis
  proof (cases "currentRoomId st c")
    case None
    then show ?thesis using ok by (simp add: registryOk_def onClose_rooms_none)
  next
    case (Some rid)
    note cur = this
    show ?thesis
    proof (cases "rid = [] \<or> rooms st rid = None")
      case True
      then show ?thesis
        using ok cur onClose_rooms_empty [of st c] onClose_rooms_gone [of st c rid]
        by (auto simp: registryOk_def)
    next
      case False
      then obtain room where room: "rid \<noteq> []" "rooms st rid = Some room"
        by auto
      then have r: "roomOk room" using ok by (simp add: registryOk_def)
      show ?thesis
      proof (cases "filter (\<lambda>p. Some (id_p p) \<noteq> currentPlayerId st c) (players room)")
        case Nil
        show ?thesis
          using ok by (simp add: registryOk_def onClose_rooms_last [OF cur room Nil])
      next
        case (Cons m others)
        from roomOk_after_leave [OF r Cons] show ?thesis
          using ok
          by (auto simp: registryOk_def onClose_rooms_stay [OF cur room Cons] split: if_splits)
      qed
    qed
  qed
qed

lemma registryOk_step: "registryOk st \<Longrightarrow> registryOk (step st ev)"
  by (cases ev)
     (simp_all add: registryOk_join registryOk_close onGameActionRelay_def,
      simp add: registryOk_def broadcastToRoom_rooms)

lemma registryOk_run: "registryOk (run evs)"
proof (induction evs rule: rev_induct)
  case Nil
  show ?case by (simp add: run_def registryOk_def emptyServer_def)
next
  case (snoc ev evs)
  then show ?case using registryOk_step [of "run evs" ev] by (simp add: run_def)
qed

lemma one_with_id:
  "distinct (map f ps) \<Longrightarrow> h \<in> set (map f ps) \<Longrightarrow> length (filter (\<lambda>p. f p = h) ps) = 1"
proof (induction ps)
  case Nil
  then show ?case by simp
next
  case (Cons a ps)
  show ?case
  proof (cases "f a = h")
    case True
    then have "h \<notin> f ` set ps"
      using Cons.prems by auto
    then have "filter (\<lambda>p. f p = h) ps = []"
      by (auto simp: filter_empty_conv)
    then show ?thesis using True by simp
  next
    case False
    then show ?thesis using Cons by auto
  qed
qed

lemma run_twoJoin:
  "rooms (run [JoinRoom 1 ''ABC'' ann, JoinRoom 2 ''ABC'' bob]) ''ABC''
     = Some \<lparr>players = [annMember, bobMember], hostId = ''p-1''\<rparr>
   \<and> currentRoomId (run [JoinRoom 1 ''ABC'' ann, JoinRoom 2 ''ABC'' bob]) 1 = Some ''ABC''
   \<and> currentPlayerId (run [JoinRoom 1 ''ABC'' ann, JoinRoom 2 ''ABC'' bob]) 1 = Some ''p-1''
   \<and> readyState (run [JoinRoom 1 ''ABC'' ann, JoinRoom 2 ''ABC'' bob]) 2 = 1"
  by (simp add: run_def emptyServer_def onJoinRoom_def broadcastToRoom_def Let_def ann_def bob_def
        annMember_def bobMember_def)

lemma run_twoJoinOneLeaves:
  "rooms (run twoJoinOneLeaves) ''ABC'' = Some \<lparr>players = [bobMember], hostId = ''p-2''\<rparr>"
  by (simp add: twoJoinOneLeaves_def run_def emptyServer_def onJoinRoom_def onClose_def
        broadcastToRoom_def Let_def ann_def bob_def bobMember_def)

text \<open>
  Claim C3. In every registry state reachable by a sequence of joins, relayed game
  actions and disconnects, every room present in the registry is non-empty and exactly
  one player of its member list has the room's \<open>hostId\<close> as id.
\<close>

theorem registry_one_host:
  assumes "rooms (run evs) rid = Some room"
  shows "players room \<noteq> []
     \<and> length (filter (\<lambda>p. id_p p = hostId room) (players room)) = 1"
proof -
  have "roomOk room"
    using registryOk_run [of evs] assms by (simp add: registryOk_def)
  then show ?thesis by (simp add: roomOk_def one_with_id)
qed


theorem registry_one_host_witness:
  "rooms (run twoJoinOneLeaves) ''ABC'' = Some \<lparr>players = [bobMember], hostId = ''p-2''\<rparr>
   \<and> players \<lparr>players = [bobMember], hostId = ''p-2''\<rparr> \<noteq> []
   \<and> length (filter (\<lambda>p. id_p p = ''p-2'') [bobMember]) = 1"
  using registry_one_host [OF run_twoJoinOneLeaves] run_twoJoinOneLeaves by simp

section \<open>Host migration\<close>

lemma delivered_broadcastToRoom_None:
  "delivered (broadcastToRoom (Some rid) msg None st) =
     delivered st @
       (case rooms st rid of
          None \<Rightarrow> []
        | Some room \<Rightarrow> map (\<lambda>p. (ws p, msg)) (filter (\<lambda>p. readyState st (ws p) = 1) (players room)))"
  by (simp add: broadcastToRoom_def split: option.split)

text \<open>
  Claim C4, as amended. If the player of the closing connection was the host of its room
  (a room with a non-empty code) and at least one member remains, the registry makes
  the first remaining member in insertion order the host and sets \<open>hostId\<close> to its id;
  it sends \<open>BECAME_HOST\<close> on that member's connection when that connection is open, and
  sends \<open>BECAME_HOST\<close> on no other connection and to no other member.
\<close>

theorem host_migration:
  assumes "currentRoomId st c = Some rid" and "rid \<noteq> []" and "rooms st rid = Some room"
    and "currentPlayerId st c = Some (hostId room)"
    and "filter (\<lambda>p. id_p p \<noteq> hostId room) (players room) = newHost # others"
  shows "rooms (onClose c st) rid = Some \<lparr>players = newHost # others, hostId = id_p newHost\<rparr>
     \<and> delivered (onClose c st) = delivered st @ newlyDelivered st (onClose c st)
     \<and> filter isBecameHost (newlyDelivered st (onClose c st))
         = (if ws newHost \<noteq> c \<and> readyState st (ws newHost) = 1
            then [(ws newHost, BECAME_HOST)] else [])"
  using assms
  by (simp add: onClose_def Let_def delivered_broadcastToRoom_None newlyDelivered_def
        broadcastToRoom_rooms broadcastToRoom_readyState isBecameHost_def filter_map o_def)

theorem host_migration_witness:
  "currentRoomId (run [JoinRoom 1 ''ABC'' ann, JoinRoom 2 ''ABC'' bob]) 1 = Some ''ABC''
   \<and> ''ABC'' \<noteq> []
   \<and> rooms (run [JoinRoom 1 ''ABC'' ann, JoinRoom 2 ''ABC'' bob]) ''ABC''
       = Some \<lparr>players = [annMember, bobMember], hostId = ''p-1''\<rparr>
   \<and> currentPlayerId (run [JoinRoom 1 ''ABC'' ann, JoinRoom 2 ''ABC'' bob]) 1 = Some ''p-1''
   \<and> filter (\<lambda>p. id_p p \<noteq> ''p-1'') [annMember, bobMember] = [bobMember]
   \<and> rooms (onClose 1 (run [JoinRoom 1 ''ABC'' ann, JoinRoom 2 ''ABC'' bob])) ''ABC''
       = Some \<lparr>players = [bobMember], hostId = ''p-2''\<rparr>
   \<and> filter isBecameHost (newlyDelivered (run [JoinRoom 1 ''ABC'' ann, JoinRoom 2 ''ABC'' bob])
        (onClose 1 (run [JoinRoom 1 ''ABC'' ann, JoinRoom 2 ''ABC'' bob])))
       = [(2, BECAME_HOST)]"
proof -
  let ?st = "run [JoinRoom 1 ''ABC'' ann, JoinRoom 2 ''ABC'' bob]"
  let ?room = "\<lparr>players = [annMember, bobMember], hostId = ''p-1''\<rparr>"
  have a: "currentRoomId ?st 1 = Some ''ABC''" and b: "''ABC'' \<noteq> []"
    and c: "rooms ?st ''ABC'' = Some ?room"
    and d: "currentPlayerId ?st 1 = Some (hostId ?room)"
    using run_twoJoin by simp_all
  have e: "filter (\<lambda>p. id_p p \<noteq> hostId ?room) (players ?room) = bobMember # []"
    by (simp add: annMember_def bobMember_def)
  show ?thesis
    using host_migration [OF a b c d e] run_twoJoin e
    by (simp add: bobMember_def)
qed

text \<open>
  The claim as first stated has the promoted member notified always. In the second run
  the host leaves a room whose only other member is on a closed connection: that member
  becomes host and no \<open>BECAME_HOST\<close> is sent at all.
\<close>

theorem promoted_ghost_not_notified:
  "rooms (run ghostTrace) ''ABC'' = Some \<lparr>players = [annMember, bobMember], hostId = ''p-1''\<rparr>
   \<and> currentRoomId (run ghostTrace) 1 = Some ''ABC''
   \<and> currentPlayerId (run ghostTrace) 1 = Some ''p-1''
   \<and> rooms (run (ghostTrace @ [Close 1])) ''ABC''
       = Some \<lparr>players = [bobMember], hostId = ''p-2''\<rparr>
   \<and> filter isBecameHost (delivered (run (ghostTrace @ [Close 1]))) = []"
  by (simp add: ghostTrace_def run_def emptyServer_def onJoinRoom_def onClose_def
        broadcastToRoom_def Let_def ann_def bob_def cat_def annMember_def bobMember_def
        isBecameHost_def Player.truncate_def)

end
